theory Spec2Isabelle
  imports Main
begin

section \<open>Strings\<close>

text \<open>
  Strings are byte strings. On a string of ASCII characters \<open>toLowerCase\<close> is JavaScript's
  \<^verbatim>\<open>String.prototype.toLowerCase\<close>: the letters \<^verbatim>\<open>A\<close> to \<^verbatim>\<open>Z\<close> (codes 65 to 90) move to \<^verbatim>\<open>a\<close> to
  \<^verbatim>\<open>z\<close>, every other character stays. A byte above 127 stays as well, where JavaScript
  would lower-case a cased character outside ASCII: the definition is JavaScript's only on
  ASCII strings, which locale codes such as \<^verbatim>\<open>en-US\<close> are. The theorems that hold for every
  string use of \<open>toLowerCase\<close> only that it is a function; what it does to a character is
  used for the ASCII strings of the examples alone.
\<close>

definition toLowerCase_char :: "char \<Rightarrow> char" where
  "toLowerCase_char c =
     (let n = (of_char c :: nat) in if 65 \<le> n \<and> n \<le> 90 then char_of (n + 32) else c)"

definition toLowerCase :: "string \<Rightarrow> string" where
  "toLowerCase s = map toLowerCase_char s"

text \<open>
  \<^verbatim>\<open>s.split('-')[0]\<close>: the text before the first hyphen, the whole string when it has
  none (the array \<^verbatim>\<open>split\<close> returns is never empty).
\<close>

definition split_0 :: "string \<Rightarrow> string" where
  "split_0 s = takeWhile (\<lambda>c. c \<noteq> CHR ''-'') s"

section \<open>Identifiers\<close>

text \<open>
  The identifier of a tag as JavaScript holds it: \<^verbatim>\<open>undefined\<close> (the property is missing),
  \<^verbatim>\<open>null\<close>, or a string. Strict equality \<^verbatim>\<open>===\<close> on such values is equality of this type:
  \<^verbatim>\<open>undefined === undefined\<close> and \<^verbatim>\<open>null === null\<close> are true, \<^verbatim>\<open>null === undefined\<close> is false.
  \<open>falsy_id\<close> is \<^verbatim>\<open>!x\<close>.
\<close>

datatype js_id = Undefined | Null | Str string

definition falsy_id :: "js_id \<Rightarrow> bool" where
  "falsy_id x = (x = Undefined \<or> x = Null \<or> x = Str [])"

section \<open>Tag (Tag.ts)\<close>

text \<open>
  The class \<^verbatim>\<open>Tag\<close>. The identifier is a \<open>js_id\<close>, since the service compares identifiers
  with \<^verbatim>\<open>===\<close>. Every other value that may be missing is an option with \<open>None\<close> for both
  \<^verbatim>\<open>undefined\<close> and \<^verbatim>\<open>null\<close>: the code never compares such a value with \<^verbatim>\<open>===\<close>, it tests it
  with \<^verbatim>\<open>== null\<close>, \<^verbatim>\<open>!= null\<close> or \<^verbatim>\<open>!x\<close>, which do not tell the two apart, or not at all. So are
  \<^verbatim>\<open>recordId?\<close>, the field \<^verbatim>\<open>originallcid\<close> that the constructor leaves unassigned, and the
  scope: the constructor stores what it is given, and a row of the backend may lack the
  property. \<^verbatim>\<open>translations\<close> is never assigned and is left out.
\<close>

record Tag =
  Tag_id :: js_id
  Tag_value :: string
  Tag_name :: string
  Tag_scope :: "string option"
  Tag_lcid :: string
  Tag_recordId :: "string option"
  Tag_preference :: nat
  Tag_persisted :: bool
  Tag_originallcid :: "string option"

definition CalculatePreference :: "string \<Rightarrow> Tag \<Rightarrow> Tag" where
  "CalculatePreference userlcid t =
     (if Tag_lcid t = userlcid then t\<lparr>Tag_preference := 1\<rparr>
      else if split_0 (Tag_lcid t) = split_0 userlcid then t\<lparr>Tag_preference := 2\<rparr>
      else t\<lparr>Tag_preference := 3\<rparr>)"

text \<open>
  The constructor. The preference is unassigned until \<^verbatim>\<open>CalculatePreference\<close> runs as the
  last statement; the record starts it at \<open>0\<close>, which every branch overwrites.
\<close>

definition Tag_new ::
  "string \<Rightarrow> string \<Rightarrow> string option \<Rightarrow> string \<Rightarrow> bool \<Rightarrow> js_id \<Rightarrow> string option \<Rightarrow> Tag" where
  "Tag_new name lcid scope userlcid persisted tagId recordId =
     CalculatePreference userlcid
       \<lparr>Tag_id = tagId, Tag_value = name, Tag_name = name, Tag_scope = scope,
        Tag_lcid = toLowerCase lcid, Tag_recordId = recordId, Tag_preference = 0,
        Tag_persisted = persisted, Tag_originallcid = None\<rparr>"

definition Translate :: "string \<Rightarrow> string \<Rightarrow> string \<Rightarrow> Tag \<Rightarrow> Tag" where
  "Translate name lcid userlcid t =
     CalculatePreference userlcid
       (t\<lparr>Tag_name := name, Tag_value := name, Tag_originallcid := Some (Tag_lcid t),
          Tag_lcid := toLowerCase lcid\<rparr>)"

section \<open>Errors (ErrorDefinitions.ts)\<close>

text \<open>
  A thrown value. \<open>TransportError\<close> is a rejection of the host's web API proxy or of axios;
  \<open>TypeError\<close> is the runtime's error on a property read or a method call on \<^verbatim>\<open>undefined\<close>;
  \<open>CustomError\<close> and \<open>TagManagerServiceError\<close> are the classes of the repository, the latter
  keeping the error it wraps (\<^verbatim>\<open>original\<close>). A message read from the resource file is
  represented by its resource key.
\<close>

datatype error =
    TransportError string
  | TypeError string
  | CustomError string
  | TagManagerServiceError string error

section \<open>The backend\<close>

text \<open>
  Rows as the service reads them. A row of \<^verbatim>\<open>eax_tag\<close>; a row of \<^verbatim>\<open>eax_tagtranslation\<close>, whose
  expanded \<^verbatim>\<open>eax_Tag\<close> is \<open>None\<close> when the navigation property is null or undefined and
  otherwise holds the parent's \<^verbatim>\<open>eax_tagid\<close> (itself possibly undefined or null); a row of the
  fetch of attached tags; a row of \<^verbatim>\<open>eax_language\<close>; an entry of \<^verbatim>\<open>ManyToManyRelationships\<close>.
  The name and the locale of a row are strings.
\<close>

record Entity_tag =
  eax_name :: string
  eax_languagelcid :: string
  eax_scope :: "string option"
  eax_tagid :: js_id

record Entity_translation =
  tr_eax_name :: string
  tr_eax_languagelcid :: string
  tr_eax_scope :: "string option"
  tr_eax_Tag :: "js_id option"

record Entity_attached =
  tags_eax_name :: string
  tags_eax_languagelcid :: string
  tags_eax_scope :: "string option"
  tags_eax_tagid :: js_id
  tag_translations_eax_name :: "string option"
  tag_translations_eax_languagelcid :: string

record Entity_language =
  eax_languageid :: "string option"
  eax_lcid :: string
  eax_code :: string
  eax_language_name :: string

record Relationship =
  SchemaName :: "string option"
  IntersectEntityName :: "string option"

text \<open>
  A request, with the values the service puts into it. A field of the service that may be
  \<^verbatim>\<open>undefined\<close> when it is interpolated is an option.
  \<^item> \<open>GET_EntitySetName base entityName\<close> and \<open>GET_ManyToManyRelationships base entityName\<close>:
    the two \<^verbatim>\<open>axios.get\<close> of \<^verbatim>\<open>LoadEntityMetadata\<close>;
  \<^item> \<open>Retrieve_attached entityName intersectEntityName entityId scope lcid\<close>: the fetch XML of
    \<^verbatim>\<open>GetAllByRecordId\<close>;
  \<^item> \<open>Retrieve_tags filter scope\<close>: the query of \<^verbatim>\<open>SearchByName\<close>;
  \<^item> \<open>Retrieve_translations filter scope lcid code\<close>: the query of \<^verbatim>\<open>SearchTranslationsByName\<close>;
  \<^item> \<open>Retrieve_tag_by_name n\<close>: the query of \<^verbatim>\<open>GetByName\<close>, whose only filter is
    \<^verbatim>\<open>eax_name eq n\<close>;
  \<^item> \<open>Retrieve_language lcid\<close>: the query of \<^verbatim>\<open>GetLanguageByLCID\<close>;
  \<^item> \<open>CreateRecord_tag n scope\<close>: \<^verbatim>\<open>createRecord('eax_tag', ...)\<close>;
  \<^item> \<open>POST_ref base host primarySet primaryId relationship relatedSet relatedId\<close>: the
    \<^verbatim>\<open>axios.post\<close> of \<^verbatim>\<open>Relate\<close>;
  \<^item> \<open>DELETE_ref base entitySet entityId relationship tagId\<close>: the \<^verbatim>\<open>axios.delete\<close> of
    \<^verbatim>\<open>Remove\<close>.
\<close>

datatype Request =
    GET_EntitySetName string string
  | GET_ManyToManyRelationships string string
  | Retrieve_attached string "string option" "string option" string string
  | Retrieve_tags string string
  | Retrieve_translations string string string string
  | Retrieve_tag_by_name string
  | Retrieve_language string
  | CreateRecord_tag string string
  | POST_ref string string "string option" "string option" "string option" string string
  | DELETE_ref string "string option" "string option" "string option" string

text \<open>
  The backend and the page the control runs in: what each request is answered with
  (\<open>Inl\<close> when the promise is rejected), and \<^verbatim>\<open>window.name\<close>. The host's
  \<^verbatim>\<open>retrieveMultipleRecords\<close> resolves to a list of rows; the null list that \<^verbatim>\<open>GetByName\<close> and
  \<^verbatim>\<open>GetLanguageByLCID\<close> also test for, and treat as the empty list, is not a value of its
  own. \<open>res_status\<close> is the HTTP status of a response that axios resolved.
\<close>

record Backend =
  window_name :: string
  res_EntitySetName :: "Request \<Rightarrow> error + string option"
  res_Relationships :: "Request \<Rightarrow> error + Relationship list option"
  res_attached :: "Request \<Rightarrow> error + Entity_attached list"
  res_tags :: "Request \<Rightarrow> error + Entity_tag list"
  res_translations :: "Request \<Rightarrow> error + Entity_translation list"
  res_languages :: "Request \<Rightarrow> error + Entity_language list"
  res_created_id :: "Request \<Rightarrow> error + string option"
  res_status :: "Request \<Rightarrow> error + nat"

section \<open>Language (Tag.ts)\<close>

record Language =
  Language_id :: "string option"
  Language_lcid :: string
  Language_code :: string
  Language_name :: string

section \<open>TagManagerService (TagManagerService.ts)\<close>

text \<open>
  The fields of the service that its methods read or write; a field that the constructor
  may leave unassigned is an option. \<open>calls\<close> is not a field of the class: it records the
  requests sent so far, in order.
\<close>

record TagManagerService =
  entitySetName :: "string option"
  entityName :: string
  manyToManyRelationshipName :: "string option"
  intersectEntityName :: "string option"
  entityId :: "string option"
  languageLCID :: string
  languageCode :: string
  scope :: string
  addedTags :: "Tag list option"
  crmHost :: string
  webApiBasePath :: string
  calls :: "Request list"

definition TagManagerService_new ::
  "string \<Rightarrow> string \<Rightarrow> string \<Rightarrow> string option \<Rightarrow> string \<Rightarrow> string \<Rightarrow> string \<Rightarrow> string
     \<Rightarrow> TagManagerService" where
  "TagManagerService_new sc lcid ename eid host m2m intersect base =
     \<lparr>entitySetName = None, entityName = ename,
      manyToManyRelationshipName = (if m2m \<noteq> [] then Some m2m else None),
      intersectEntityName = (if intersect \<noteq> [] then Some intersect else None),
      entityId = eid, languageLCID = toLowerCase lcid,
      languageCode = split_0 (toLowerCase lcid), scope = sc, addedTags = None,
      crmHost = host, webApiBasePath = base, calls = []\<rparr>"

definition issue :: "Request \<Rightarrow> TagManagerService \<Rightarrow> TagManagerService" where
  "issue r s = s\<lparr>calls := calls s @ [r]\<rparr>"

text \<open>
  JavaScript's \<^verbatim>\<open>!x\<close> on a string that may be missing: true on undefined, on null and on
  the empty string.
\<close>

definition falsy :: "string option \<Rightarrow> bool" where
  "falsy x = (x = None \<or> x = Some [])"

subsection \<open>The resolution step of SearchByName\<close>

text \<open>
  The comparator. Its first test, on a null argument, is left out: the elements sorted are
  \<^verbatim>\<open>Tag\<close> objects.
\<close>

definition SetPreferenceOrder :: "Tag \<Rightarrow> Tag \<Rightarrow> int" where
  "SetPreferenceOrder tag1 tag2 =
     (if Tag_preference tag1 > Tag_preference tag2 then 1
      else if Tag_preference tag1 < Tag_preference tag2 then - 1
      else 0)"

text \<open>
  \<^verbatim>\<open>Array.prototype.sort\<close> with a comparator. The sort is stable (ECMAScript 2019), and a
  stable sort by a comparator that orders by a key has one result, the one of this
  insertion sort: an element goes before the first one it does not compare greater than.
\<close>

fun insert_by :: "('a \<Rightarrow> 'a \<Rightarrow> int) \<Rightarrow> 'a \<Rightarrow> 'a list \<Rightarrow> 'a list" where
  "insert_by cmp x [] = [x]"
| "insert_by cmp x (y # ys) = (if cmp x y \<le> 0 then x # y # ys else y # insert_by cmp x ys)"

definition sort_by :: "('a \<Rightarrow> 'a \<Rightarrow> int) \<Rightarrow> 'a list \<Rightarrow> 'a list" where
  "sort_by cmp xs = foldr (insert_by cmp) xs []"

text \<open>The callback of \<^verbatim>\<open>reduce\<close>; \<open>added\<close> is \<^verbatim>\<open>this._addedTags\<close>.\<close>

definition reduce_step :: "Tag list \<Rightarrow> Tag list \<Rightarrow> Tag \<Rightarrow> Tag list" where
  "reduce_step added acc item =
     (case find (\<lambda>i. Tag_id i = Tag_id item) added of
        None \<Rightarrow>
          (case find (\<lambda>e. Tag_name e = Tag_name item \<or> Tag_id e = Tag_id item) acc of
             None \<Rightarrow> acc @ [item]
           | Some existingTag \<Rightarrow> acc)
      | Some addedTag \<Rightarrow> acc)"

definition Resolve :: "Tag list \<Rightarrow> Tag list \<Rightarrow> Tag list \<Rightarrow> Tag list" where
  "Resolve tags translatedTags added =
     foldl (reduce_step added) [] (sort_by SetPreferenceOrder (tags @ translatedTags))"

subsection \<open>The methods\<close>

text \<open>
  A method takes the backend and the service and returns what it resolves to (\<open>Inr\<close>) or
  rejects with (\<open>Inl\<close>), and the service as it leaves it: an assignment made before a
  \<^verbatim>\<open>throw\<close> stays. \<open>catch_wrap key\<close> is
  \<^verbatim>\<open>catch (err) { throw new TagManagerServiceError(getString(key), err) }\<close>.
\<close>

type_synonym 'a outcome = "(error + 'a) \<times> TagManagerService"

definition catch_wrap :: "string \<Rightarrow> 'a outcome \<Rightarrow> 'a outcome" where
  "catch_wrap key r =
     (case r of
        (Inl err, s) \<Rightarrow> (Inl (TagManagerServiceError key err), s)
      | (Inr v, s) \<Rightarrow> (Inr v, s))"

definition LoadEntityMetadata :: "Backend \<Rightarrow> TagManagerService \<Rightarrow> unit outcome" where
  "LoadEntityMetadata b s =
     (let r1 = GET_EntitySetName (webApiBasePath s) (entityName s); s1 = issue r1 s in
      case res_EntitySetName b r1 of
        Inl err \<Rightarrow> (Inl err, s1)
      | Inr esn \<Rightarrow>
          (let s2 = s1\<lparr>entitySetName := esn\<rparr> in
           if esn = None then (Inl (CustomError ''ErrEntitySetNotFoundKey''), s2)
           else if manyToManyRelationshipName s2 = None then
             (let r2 = GET_ManyToManyRelationships (webApiBasePath s2) (entityName s2);
                  s3 = issue r2 s2 in
              case res_Relationships b r2 of
                Inl err \<Rightarrow> (Inl err, s3)
              | Inr None \<Rightarrow> (Inl (CustomError ''ErrManyToManyRelationshipNotFoundKey''), s3)
              | Inr (Some []) \<Rightarrow> (Inl (CustomError ''ErrManyToManyRelationshipNotFoundKey''), s3)
              | Inr (Some (rel # rest)) \<Rightarrow>
                  if falsy (SchemaName rel) \<or> falsy (IntersectEntityName rel)
                  then (Inl (CustomError ''ErrManyToManyRelationshipNotFoundKey''), s3)
                  else (Inr (), s3\<lparr>manyToManyRelationshipName := SchemaName rel,
                                   intersectEntityName := IntersectEntityName rel\<rparr>))
           else (Inr (), s2)))"

text \<open>The callback of \<^verbatim>\<open>entities.map\<close> in \<^verbatim>\<open>GetAllByRecordId\<close>.\<close>

definition attached_tag :: "TagManagerService \<Rightarrow> Entity_attached \<Rightarrow> Tag" where
  "attached_tag s t =
     (let tag = Tag_new (tags_eax_name t) (tags_eax_languagelcid t) (tags_eax_scope t)
                  (languageLCID s) True (tags_eax_tagid t) (entityId s);
          translatedName = (case tag_translations_eax_name t of None \<Rightarrow> [] | Some n \<Rightarrow> n)
      in if translatedName \<noteq> [] \<and> Tag_lcid tag \<noteq> languageLCID s
         then Translate translatedName (tag_translations_eax_languagelcid t) (languageLCID s) tag
         else tag)"

definition GetAllByRecordId :: "Backend \<Rightarrow> TagManagerService \<Rightarrow> Tag list outcome" where
  "GetAllByRecordId b s =
     catch_wrap ''ErrGetAllTagsByRecordKey''
       (case (if falsy (intersectEntityName s) then LoadEntityMetadata b s else (Inr (), s)) of
          (Inl err, s1) \<Rightarrow> (Inl err, s1)
        | (Inr u, s1) \<Rightarrow>
            (let r = Retrieve_attached (entityName s1) (intersectEntityName s1) (entityId s1)
                       (scope s1) (languageLCID s1);
                 s2 = issue r s1 in
             case res_attached b r of
               Inl err \<Rightarrow> (Inl err, s2)
             | Inr entities \<Rightarrow>
                 (let ts = map (attached_tag s2) entities in
                  (Inr ts, s2\<lparr>addedTags := Some ts\<rparr>))))"

text \<open>
  The callback of \<^verbatim>\<open>entities.map\<close> in \<^verbatim>\<open>SearchTranslationsByName\<close>, over the rows in order:
  reading \<^verbatim>\<open>e.eax_Tag.eax_tagid\<close> throws when \<^verbatim>\<open>eax_Tag\<close> is null or undefined.
\<close>

fun translation_tags :: "string \<Rightarrow> Entity_translation list \<Rightarrow> error + Tag list" where
  "translation_tags userlcid [] = Inr []"
| "translation_tags userlcid (e # es) =
     (case tr_eax_Tag e of
        None \<Rightarrow> Inl (TypeError ''eax_tagid'')
      | Some tagid \<Rightarrow>
          (case translation_tags userlcid es of
             Inl err \<Rightarrow> Inl err
           | Inr ts \<Rightarrow>
               Inr (Tag_new (tr_eax_name e) (tr_eax_languagelcid e) (tr_eax_scope e) userlcid
                      True tagid None # ts)))"

definition SearchTranslationsByName ::
  "Backend \<Rightarrow> TagManagerService \<Rightarrow> string \<Rightarrow> Tag list outcome" where
  "SearchTranslationsByName b s name =
     catch_wrap ''ErrSearchTagTranslationsKey''
       (let r = Retrieve_translations name (scope s) (languageLCID s) (languageCode s);
            s1 = issue r s in
        case res_translations b r of
          Inl err \<Rightarrow> (Inl err, s1)
        | Inr entities \<Rightarrow>
            (case translation_tags (languageLCID s1) entities of
               Inl err \<Rightarrow> (Inl err, s1)
             | Inr translatedTags \<Rightarrow> (Inr translatedTags, s1)))"

definition SearchByName :: "Backend \<Rightarrow> TagManagerService \<Rightarrow> string \<Rightarrow> Tag list outcome" where
  "SearchByName b s name =
     catch_wrap ''ErrSearchTagsKey''
       (case (case addedTags s of
                None \<Rightarrow>
                  (case GetAllByRecordId b s of
                     (Inl err, s1) \<Rightarrow> (Inl err, s1)
                   | (Inr ts, s1) \<Rightarrow> (Inr (), s1\<lparr>addedTags := Some ts\<rparr>))
              | Some ts \<Rightarrow> (Inr (), s)) of
          (Inl err, s1) \<Rightarrow> (Inl err, s1)
        | (Inr u, s1) \<Rightarrow>
            (let r = Retrieve_tags name (scope s1); s2 = issue r s1 in
             case res_tags b r of
               Inl err \<Rightarrow> (Inl err, s2)
             | Inr entities \<Rightarrow>
                 (let tags = map (\<lambda>e. Tag_new (eax_name e) (eax_languagelcid e) (eax_scope e)
                                        (languageLCID s2) True (eax_tagid e) None) entities in
                  case SearchTranslationsByName b s2 name of
                    (Inl err, s3) \<Rightarrow> (Inl err, s3)
                  | (Inr translatedTags, s3) \<Rightarrow>
                      (case addedTags s3 of
                         None \<Rightarrow>
                           (if tags @ translatedTags = [] then (Inr [], s3)
                            else (Inl (TypeError ''find''), s3))
                       | Some added \<Rightarrow> (Inr (Resolve tags translatedTags added), s3)))))"

definition GetByName :: "Backend \<Rightarrow> TagManagerService \<Rightarrow> string \<Rightarrow> Tag option outcome" where
  "GetByName b s name =
     catch_wrap ''ErrFindTagByNameKey''
       (let r = Retrieve_tag_by_name (toLowerCase name); s1 = issue r s in
        case res_tags b r of
          Inl err \<Rightarrow> (Inl err, s1)
        | Inr [] \<Rightarrow> (Inr None, s1)
        | Inr (e # rest) \<Rightarrow>
            (Inr (Some (Tag_new (eax_name e) (eax_languagelcid e) (eax_scope e) (languageLCID s1)
                          True (eax_tagid e) None)), s1))"

definition GetLanguageByLCID ::
  "Backend \<Rightarrow> TagManagerService \<Rightarrow> string \<Rightarrow> Language option outcome" where
  "GetLanguageByLCID b s lcid =
     catch_wrap ''ErrFindLCIDKey''
       (let r = Retrieve_language lcid; s1 = issue r s in
        case res_languages b r of
          Inl err \<Rightarrow> (Inl err, s1)
        | Inr [] \<Rightarrow> (Inr None, s1)
        | Inr (e # rest) \<Rightarrow>
            (Inr (Some \<lparr>Language_id = eax_languageid e, Language_lcid = eax_lcid e,
                        Language_code = eax_code e, Language_name = eax_language_name e\<rparr>), s1))"

definition Relate ::
  "Backend \<Rightarrow> TagManagerService \<Rightarrow> string option \<Rightarrow> string \<Rightarrow> string option \<Rightarrow> string option
     \<Rightarrow> string \<Rightarrow> bool outcome" where
  "Relate b s primaryEntityId relatedEntityId primaryEntitySetName relationshipName
       relatedEntitySetName =
     (let r = POST_ref (webApiBasePath s) (crmHost s) primaryEntitySetName primaryEntityId
                relationshipName relatedEntitySetName relatedEntityId;
          s1 = issue r s in
      case res_status b r of
        Inl err \<Rightarrow> (Inl err, s1)
      | Inr status \<Rightarrow> (Inr (status = 204), s1))"

definition Create :: "Backend \<Rightarrow> TagManagerService \<Rightarrow> string \<Rightarrow> Tag option outcome" where
  "Create b s tagName =
     (let r = CreateRecord_tag tagName (scope s); s1 = issue r s in
      case res_created_id b r of
        Inl err \<Rightarrow> (Inl err, s1)
      | Inr None \<Rightarrow> (Inl (CustomError ''ErrTagCreationKey''), s1)
      | Inr (Some addedTagId) \<Rightarrow>
          if addedTagId = [] then (Inl (CustomError ''ErrTagCreationKey''), s1)
          else
            (case GetLanguageByLCID b s1 (languageLCID s1) of
               (Inl err, s2) \<Rightarrow> (Inl err, s2)
             | (Inr None, s2) \<Rightarrow> (Inl (CustomError ''ErrTagCreatedLCIDNotFoundKey''), s2)
             | (Inr (Some language), s2) \<Rightarrow>
                 (case Language_id language of
                    None \<Rightarrow> (Inl (CustomError ''ErrTagCreatedLCIDNotFoundKey''), s2)
                  | Some lid \<Rightarrow>
                      if lid = [] then (Inl (CustomError ''ErrTagCreatedLCIDNotFoundKey''), s2)
                      else
                        (case Relate b s2 (Some addedTagId) lid (Some ''eax_tags'')
                                (Some ''eax_Language'') ''eax_languages'' of
                           (Inl err, s3) \<Rightarrow> (Inl err, s3)
                         | (Inr setLanguageResponse, s3) \<Rightarrow>
                             if \<not> setLanguageResponse
                             then (Inl (CustomError ''ErrTagCreatedLanguageNotSetKey''), s3)
                             else (Inr (Some (Tag_new tagName (languageLCID s3) (Some (scope s3))
                                               (languageLCID s3) False (Str addedTagId)
                                               (entityId s3))), s3)))))"

text \<open>
  \<^verbatim>\<open>Add\<close>. In \<^verbatim>\<open>tag = await this.GetByName(name)\<close> the identifier \<^verbatim>\<open>name\<close> is neither a
  parameter nor a local of the method or the module (the parameter is \<^verbatim>\<open>tagName\<close>): it is
  the global of the page, \<^verbatim>\<open>window.name\<close>. The test \<^verbatim>\<open>tagId != undefined\<close> is false on
  \<^verbatim>\<open>undefined\<close> and on \<^verbatim>\<open>null\<close>; \<^verbatim>\<open>tag && tag.id\<close> holds when the identifier is a string that
  is not empty.
\<close>

definition Add ::
  "Backend \<Rightarrow> TagManagerService \<Rightarrow> string \<Rightarrow> js_id \<Rightarrow> Tag option outcome" where
  "Add b s tagName tagId =
     catch_wrap ''ErrTagCreationRelationshipKey''
       (case (if entitySetName s = None then LoadEntityMetadata b s else (Inr (), s)) of
          (Inl err, s1) \<Rightarrow> (Inl err, s1)
        | (Inr u, s1) \<Rightarrow>
            (case (if tagId \<noteq> Undefined \<and> tagId \<noteq> Null
                   then (Inr (Some (Tag_new tagName (languageLCID s1) (Some (scope s1))
                                      (languageLCID s1) False tagId (entityId s1))), s1)
                   else
                     (case GetByName b s1 (window_name b) of
                        (Inl err, s2) \<Rightarrow> (Inl err, s2)
                      | (Inr None, s2) \<Rightarrow> Create b s2 tagName
                      | (Inr (Some found), s2) \<Rightarrow>
                          if falsy_id (Tag_id found) then Create b s2 tagName
                          else (Inr (Some found), s2))) of
               (Inl err, s3) \<Rightarrow> (Inl err, s3)
             | (Inr None, s3) \<Rightarrow> (Inl (CustomError ''ErrTagCreationKey''), s3)
             | (Inr (Some tag), s3) \<Rightarrow>
                 (case Tag_id tag of
                    Undefined \<Rightarrow> (Inl (CustomError ''ErrTagCreationKey''), s3)
                  | Null \<Rightarrow> (Inl (CustomError ''ErrTagCreationKey''), s3)
                  | Str i \<Rightarrow>
                      if i = [] then (Inl (CustomError ''ErrTagCreationKey''), s3)
                      else
                        (case Relate b s3 (entityId s3) i (entitySetName s3)
                                (manyToManyRelationshipName s3) ''eax_tags'' of
                           (Inl err, s4) \<Rightarrow> (Inl err, s4)
                         | (Inr relateResult, s4) \<Rightarrow>
                             if relateResult then
                               (case addedTags s4 of
                                  None \<Rightarrow> (Inl (TypeError ''push''), s4)
                                | Some ts \<Rightarrow>
                                    (Inr (Some (tag\<lparr>Tag_persisted := True\<rparr>)),
                                     s4\<lparr>addedTags := Some (ts @ [tag\<lparr>Tag_persisted := True\<rparr>])\<rparr>))
                             else (Inl (CustomError ''ErrTagRelationshipKey''), s4)))))"

text \<open>
  \<^verbatim>\<open>Remove\<close>. The guard \<^verbatim>\<open>this._entityId != null && tagId != null\<close> holds when the service has
  the identifier of its record and \<^verbatim>\<open>tagId\<close> is a string. Inside the guard \<^verbatim>\<open>i.id != tagId\<close>
  compares an identifier with that string: it is false only on the same string.
\<close>

definition Remove :: "Backend \<Rightarrow> TagManagerService \<Rightarrow> js_id \<Rightarrow> bool outcome" where
  "Remove b s tagId =
     catch_wrap ''ErrTagRemovalKey''
       (case (entityId s, tagId) of
          (Some eid, Str tid) \<Rightarrow>
            (case (if entitySetName s = None then LoadEntityMetadata b s else (Inr (), s)) of
               (Inl err, s1) \<Rightarrow> (Inl err, s1)
             | (Inr u, s1) \<Rightarrow>
                 (let r = DELETE_ref (webApiBasePath s1) (entitySetName s1) (entityId s1)
                            (manyToManyRelationshipName s1) tid;
                      s2 = issue r s1 in
                  case res_status b r of
                    Inl err \<Rightarrow> (Inl err, s2)
                  | Inr status \<Rightarrow>
                      (case addedTags s2 of
                         None \<Rightarrow> (Inl (TypeError ''filter''), s2)
                       | Some ts \<Rightarrow>
                           (Inr (status = 204),
                            s2\<lparr>addedTags := Some (filter (\<lambda>i. Tag_id i \<noteq> Str tid) ts)\<rparr>))))
        | _ \<Rightarrow> (Inr False, s))"

section \<open>Example inputs\<close>

text \<open>
  A service as the control constructs it for an account record, with both relationship
  names configured; a tag attached to the record; and a backend in which the tag
  \<^verbatim>\<open>Sales\<close> exists, no language record does, every write succeeds with status 204, and
  \<^verbatim>\<open>window.name\<close> is the empty string.
\<close>

definition example_service :: TagManagerService where
  "example_service =
     TagManagerService_new ''skills'' ''en-US'' ''account'' (Some ''R1'') ''https://org.crm''
       ''eax_account_eax_tag'' ''eax_account_eax_tagset'' ''/api/data/v9.1''"

definition example_attached :: Tag where
  "example_attached =
     Tag_new ''Sales'' ''en-US'' (Some ''skills'') ''en-us'' True (Str ''A'') (Some ''R1'')"

definition example_backend :: Backend where
  "example_backend =
     \<lparr>window_name = [],
      res_EntitySetName = (\<lambda>r. Inr (Some ''accounts'')),
      res_Relationships = (\<lambda>r. Inr None),
      res_attached = (\<lambda>r. Inr [\<lparr>tags_eax_name = ''Sales'', tags_eax_languagelcid = ''en-US'',
                                   tags_eax_scope = Some ''skills'', tags_eax_tagid = Str ''A'',
                                   tag_translations_eax_name = None,
                                   tag_translations_eax_languagelcid = []\<rparr>]),
      res_tags = (\<lambda>r. if r = Retrieve_tag_by_name ''sales''
                       then Inr [\<lparr>eax_name = ''Sales'', eax_languagelcid = ''en-US'',
                                  eax_scope = Some ''skills'', eax_tagid = Str ''A''\<rparr>]
                       else Inr []),
      res_translations = (\<lambda>r. Inr []),
      res_languages = (\<lambda>r. Inr []),
      res_created_id = (\<lambda>r. Inr (Some ''B'')),
      res_status = (\<lambda>r. Inr 204)\<rparr>"

text \<open>The same backend with the language record of \<^verbatim>\<open>en-us\<close>.\<close>

definition example_backend_with_language :: Backend where
  "example_backend_with_language =
     example_backend\<lparr>res_languages :=
       (\<lambda>r. Inr [\<lparr>eax_languageid = Some ''L1'', eax_lcid = ''en-us'', eax_code = ''en'',
                   eax_language_name = ''English''\<rparr>])\<rparr>"

text \<open>The same backend whose relationship endpoint rejects every request.\<close>

definition example_backend_offline :: Backend where
  "example_backend_offline =
     example_backend\<lparr>res_status := (\<lambda>r. Inl (TransportError ''Network Error''))\<rparr>"

text \<open>The same backend whose fetch of the attached tags is rejected.\<close>

definition example_backend_no_fetch :: Backend where
  "example_backend_no_fetch =
     example_backend\<lparr>res_attached := (\<lambda>r. Inl (TransportError ''Network Error''))\<rparr>"

text \<open>The same backend in a page whose \<^verbatim>\<open>window.name\<close> is \<^verbatim>\<open>Sales\<close>.\<close>

definition example_backend_named :: Backend where
  "example_backend_named = example_backend\<lparr>window_name := ''Sales''\<rparr>"

section \<open>Evaluation of the examples\<close>

lemma toLowerCase_examples:
  "toLowerCase ''en-US'' = ''en-us''"
  "toLowerCase ''EN-US'' = ''en-us''"
  "toLowerCase ''en-us'' = ''en-us''"
  "toLowerCase ''es-mx'' = ''es-mx''"
  "toLowerCase [] = []"
  "toLowerCase ''Sales'' = ''sales''"
  "toLowerCase ''Marketing'' = ''marketing''"
  by code_simp+

lemmas tag_defs = Tag_new_def CalculatePreference_def Translate_def split_0_def

lemmas resolve_defs = Resolve_def sort_by_def reduce_step_def SetPreferenceOrder_def

lemmas service_defs =
  TagManagerService_new_def issue_def falsy_def falsy_id_def catch_wrap_def Let_def LoadEntityMetadata_def
  attached_tag_def GetAllByRecordId_def SearchTranslationsByName_def SearchByName_def
  GetByName_def GetLanguageByLCID_def Relate_def Create_def Add_def Remove_def

lemmas example_defs =
  example_service_def example_attached_def example_backend_def
  example_backend_with_language_def example_backend_offline_def example_backend_no_fetch_def
  example_backend_named_def

section \<open>Preference rank\<close>

lemma Tag_new_preference:
  "Tag_preference (Tag_new name lcid sc userlcid persisted tagId recordId) =
     (if toLowerCase lcid = userlcid then 1
      else if split_0 (toLowerCase lcid) = split_0 userlcid then 2 else 3)"
  by (simp add: Tag_new_def CalculatePreference_def)

text \<open>
  Claim C4, as the code has it. The constructor of \<^verbatim>\<open>Tag\<close> lower-cases the tag's locale and
  compares it with the viewer's locale as it is given; the constructor of the service
  lower-cases the viewer's locale before any tag is built. So for every tag locale \<open>L\<close> and
  every viewer locale \<open>V\<close> the service was constructed with, in any case, the rank of a tag
  the service builds is 1 when the lower-cased locales are equal, 2 when they differ and
  their language subtags are equal, and 3 otherwise.
\<close>

theorem preference_rank_in_service:
  "Tag_preference
     (Tag_new name L sc (languageLCID (TagManagerService_new scp V ename eid host m2m isect base))
        persisted tagId recordId) =
     (if toLowerCase L = toLowerCase V then 1
      else if split_0 (toLowerCase L) = split_0 (toLowerCase V) then 2 else 3)"
  by (simp add: Tag_new_preference TagManagerService_new_def)

text \<open>
  Claim C4 as stated fails on the constructor of \<^verbatim>\<open>Tag\<close> alone: for the tag locale
  \<^verbatim>\<open>en-us\<close> and the viewer locale \<^verbatim>\<open>EN-US\<close>, the same locale after case normalisation, the
  rank is 3 and not 1.
\<close>

theorem preference_rank_mixed_case_viewer:
  "toLowerCase ''en-us'' = toLowerCase ''EN-US'' \<and>
   Tag_preference (Tag_new ''Sales'' ''en-us'' None ''EN-US'' True (Str ''A'') None) = 3"
  by (simp add: Tag_new_preference toLowerCase_examples split_0_def)

section \<open>The resolution step\<close>

lemma find_None_conv: "(find P xs = None) = (\<forall>x\<in>set xs. \<not> P x)"
  by (induction xs) auto

text \<open>What one step of the fold does, without \<open>find\<close>.\<close>

lemma reduce_step_eq:
  "reduce_step added acc item =
     (if (\<exists>i\<in>set added. Tag_id i = Tag_id item) \<or>
         (\<exists>e\<in>set acc. Tag_name e = Tag_name item \<or> Tag_id e = Tag_id item)
      then acc else acc @ [item])"
proof -
  let ?f = "find (\<lambda>i. Tag_id i = Tag_id item) added"
  let ?g = "find (\<lambda>e. Tag_name e = Tag_name item \<or> Tag_id e = Tag_id item) acc"
  have f: "(?f = None) = (\<forall>i\<in>set added. Tag_id i \<noteq> Tag_id item)"
    by (rule find_None_conv)
  have g: "(?g = None) =
             (\<forall>e\<in>set acc. \<not> (Tag_name e = Tag_name item \<or> Tag_id e = Tag_id item))"
    by (rule find_None_conv)
  show ?thesis
  proof (cases ?f)
    case None
    note fN = this
    show ?thesis
    proof (cases ?g)
      case None
      with fN f g show ?thesis by (simp add: reduce_step_def)
    next
      case (Some e)
      with fN f g show ?thesis by (auto simp: reduce_step_def)
    qed
  next
    case (Some i)
    with f show ?thesis by (auto simp: reduce_step_def)
  qed
qed

lemma foldl_invariant:
  assumes "P acc" and "\<And>a x. P a \<Longrightarrow> P (f a x)"
  shows "P (foldl f acc xs)"
  using assms by (induction xs arbitrary: acc) auto

lemma reduce_step_distinct:
  assumes "distinct (map Tag_id acc) \<and> distinct (map Tag_name acc)"
  shows "distinct (map Tag_id (reduce_step added acc item)) \<and>
         distinct (map Tag_name (reduce_step added acc item))"
  using assms by (simp add: reduce_step_eq) (metis imageE)

lemma reduce_step_not_added:
  assumes "\<forall>t\<in>set acc. \<forall>i\<in>set added. Tag_id i \<noteq> Tag_id t"
  shows "\<forall>t\<in>set (reduce_step added acc item). \<forall>i\<in>set added. Tag_id i \<noteq> Tag_id t"
  using assms by (simp add: reduce_step_eq)

text \<open>
  Claim C1. The fresh tag \<^verbatim>\<open>Sales\<close> (\<^verbatim>\<open>en-us\<close>, id \<^verbatim>\<open>A\<close>) and the translated tag \<^verbatim>\<open>Ventas\<close>
  (\<^verbatim>\<open>es-mx\<close>, parent id \<^verbatim>\<open>A\<close>), built for the viewer locale \<^verbatim>\<open>es-mx\<close>, with nothing attached:
  the sort puts \<^verbatim>\<open>Ventas\<close> (rank 1) before \<^verbatim>\<open>Sales\<close> (rank 3) although \<^verbatim>\<open>Sales\<close> comes first in
  the concatenation, and the result is the single entry \<^verbatim>\<open>Ventas\<close>, of rank 1 and id \<^verbatim>\<open>A\<close>.
\<close>

theorem Resolve_Sales_Ventas:
  "sort_by SetPreferenceOrder
     ([Tag_new ''Sales'' ''en-us'' sc ''es-mx'' True (Str ''A'') None] @
      [Tag_new ''Ventas'' ''es-mx'' sc' ''es-mx'' True (Str ''A'') None]) =
     [Tag_new ''Ventas'' ''es-mx'' sc' ''es-mx'' True (Str ''A'') None,
      Tag_new ''Sales'' ''en-us'' sc ''es-mx'' True (Str ''A'') None] \<and>
   Resolve [Tag_new ''Sales'' ''en-us'' sc ''es-mx'' True (Str ''A'') None]
           [Tag_new ''Ventas'' ''es-mx'' sc' ''es-mx'' True (Str ''A'') None] [] =
     [\<lparr>Tag_id = Str ''A'', Tag_value = ''Ventas'', Tag_name = ''Ventas'', Tag_scope = sc',
       Tag_lcid = ''es-mx'', Tag_recordId = None, Tag_preference = 1, Tag_persisted = True,
       Tag_originallcid = None\<rparr>]"
  by (simp add: resolve_defs tag_defs toLowerCase_examples)

text \<open>
  Claim C2. Whatever the fresh tags, the translated tags and the attached tags are, no two
  entries of the result have the same identifier (\<^verbatim>\<open>undefined\<close> and \<^verbatim>\<open>null\<close> count as
  identifiers, each different from the other and from every string), and no two have the
  same display name.
\<close>

theorem Resolve_distinct:
  "distinct (map Tag_id (Resolve tags translatedTags added)) \<and>
   distinct (map Tag_name (Resolve tags translatedTags added))"
  unfolding Resolve_def
  by (rule foldl_invariant) (simp_all add: reduce_step_distinct)

text \<open>
  Claim C3. Whatever the fresh tags, the translated tags and the attached tags are, no
  entry of the result has the identifier of an attached tag.
\<close>

theorem Resolve_not_attached:
  "\<forall>t\<in>set (Resolve tags translatedTags added). \<forall>i\<in>set added. Tag_id i \<noteq> Tag_id t"
  unfolding Resolve_def
  by (rule foldl_invariant) (simp_all add: reduce_step_not_added)

text \<open>
  Claim C3 at an input: with \<^verbatim>\<open>Sales\<close> (id \<^verbatim>\<open>A\<close>) attached, the candidates \<^verbatim>\<open>Sales\<close> (id \<^verbatim>\<open>A\<close>)
  and \<^verbatim>\<open>Sailing\<close> (id \<^verbatim>\<open>C\<close>) resolve to a list without the identifier \<^verbatim>\<open>A\<close>.
\<close>

theorem Resolve_not_attached_witness:
  "Str ''A'' \<notin> Tag_id ` set (Resolve [Tag_new ''Sales'' ''en-us'' None ''en-us'' True (Str ''A'') None,
                                        Tag_new ''Sailing'' ''en-us'' None ''en-us'' True (Str ''C'') None]
                                       [] [example_attached]) \<and>
   map Tag_name (Resolve [Tag_new ''Sales'' ''en-us'' None ''en-us'' True (Str ''A'') None,
                          Tag_new ''Sailing'' ''en-us'' None ''en-us'' True (Str ''C'') None]
                         [] [example_attached]) = [''Sailing'']"
  using Resolve_not_attached
          [of "[Tag_new ''Sales'' ''en-us'' None ''en-us'' True (Str ''A'') None,
                Tag_new ''Sailing'' ''en-us'' None ''en-us'' True (Str ''C'') None]"
              "[]" "[example_attached]"]
  by (simp add: resolve_defs tag_defs toLowerCase_examples example_defs)

text \<open>
  Claim C9, as the code has it. A candidate whose identifier is absent (\<^verbatim>\<open>undefined\<close> or
  \<^verbatim>\<open>null\<close>) is compared with the attached tags by identifier and with the result list by
  display name and by identifier, with \<^verbatim>\<open>===\<close>: \<^verbatim>\<open>undefined\<close> equals \<^verbatim>\<open>undefined\<close> and \<^verbatim>\<open>null\<close>
  equals \<^verbatim>\<open>null\<close>, and \<^verbatim>\<open>null\<close> does not equal \<^verbatim>\<open>undefined\<close>. A candidate with the identifier
  \<^verbatim>\<open>undefined\<close> is appended exactly when no attached tag has the identifier \<^verbatim>\<open>undefined\<close> and
  no entry of the result list has its display name or the identifier \<^verbatim>\<open>undefined\<close>; the
  same with \<^verbatim>\<open>null\<close> throughout for a candidate with the identifier \<^verbatim>\<open>null\<close>.
\<close>

theorem reduce_step_absent_id:
  "(Tag_id item = Undefined \<longrightarrow>
      reduce_step added acc item =
        (if (\<exists>i\<in>set added. Tag_id i = Undefined) \<or>
            (\<exists>e\<in>set acc. Tag_name e = Tag_name item \<or> Tag_id e = Undefined)
         then acc else acc @ [item])) \<and>
   (Tag_id item = Null \<longrightarrow>
      reduce_step added acc item =
        (if (\<exists>i\<in>set added. Tag_id i = Null) \<or>
            (\<exists>e\<in>set acc. Tag_name e = Tag_name item \<or> Tag_id e = Null)
         then acc else acc @ [item]))"
  by (simp add: reduce_step_eq)

text \<open>
  Claim C9 at two inputs: after \<^verbatim>\<open>Rojo\<close> with the identifier \<^verbatim>\<open>null\<close>, the candidate \<^verbatim>\<open>Verde\<close>
  with the identifier \<^verbatim>\<open>undefined\<close> is appended; after \<^verbatim>\<open>Rojo\<close> with the identifier \<^verbatim>\<open>A\<close>, the
  candidate \<^verbatim>\<open>Verde\<close> with the identifier \<^verbatim>\<open>null\<close> is appended.
\<close>

theorem reduce_step_absent_id_witness:
  "reduce_step [] [Tag_new ''Rojo'' ''es-mx'' None ''es-mx'' True Null None]
     (Tag_new ''Verde'' ''es-mx'' None ''es-mx'' True Undefined None) =
   [Tag_new ''Rojo'' ''es-mx'' None ''es-mx'' True Null None,
    Tag_new ''Verde'' ''es-mx'' None ''es-mx'' True Undefined None] \<and>
   reduce_step [] [Tag_new ''Rojo'' ''es-mx'' None ''es-mx'' True (Str ''A'') None]
     (Tag_new ''Verde'' ''es-mx'' None ''es-mx'' True Null None) =
   [Tag_new ''Rojo'' ''es-mx'' None ''es-mx'' True (Str ''A'') None,
    Tag_new ''Verde'' ''es-mx'' None ''es-mx'' True Null None]"
  using reduce_step_absent_id
          [of "Tag_new ''Verde'' ''es-mx'' None ''es-mx'' True Undefined None" "[]"
              "[Tag_new ''Rojo'' ''es-mx'' None ''es-mx'' True Null None]"]
        reduce_step_absent_id
          [of "Tag_new ''Verde'' ''es-mx'' None ''es-mx'' True Null None" "[]"
              "[Tag_new ''Rojo'' ''es-mx'' None ''es-mx'' True (Str ''A'') None]"]
  by (simp add: tag_defs toLowerCase_examples)

text \<open>
  Claim C9 as stated fails: the result list holds \<^verbatim>\<open>Rojo\<close>, whose identifier is
  \<^verbatim>\<open>undefined\<close>; the candidate \<^verbatim>\<open>Verde\<close>, whose identifier is \<^verbatim>\<open>undefined\<close>, has a display name
  that is not in the list and matches no attached tag, and it is not appended. The same
  through the whole step: of two translations without identifier only the first is
  returned.
\<close>

theorem reduce_step_absent_id_not_appended:
  "reduce_step [] [Tag_new ''Rojo'' ''es-mx'' None ''es-mx'' True Undefined None]
     (Tag_new ''Verde'' ''es-mx'' None ''es-mx'' True Undefined None) =
   [Tag_new ''Rojo'' ''es-mx'' None ''es-mx'' True Undefined None] \<and>
   map Tag_name
     (Resolve [] [Tag_new ''Rojo'' ''es-mx'' None ''es-mx'' True Undefined None,
                  Tag_new ''Verde'' ''es-mx'' None ''es-mx'' True Undefined None] []) = [''Rojo'']"
  by (simp add: resolve_defs tag_defs toLowerCase_examples)

section \<open>What the methods leave alone\<close>

lemma LoadEntityMetadata_frame:
  "addedTags (snd (LoadEntityMetadata b s)) = addedTags s \<and>
   entityId (snd (LoadEntityMetadata b s)) = entityId s \<and>
   scope (snd (LoadEntityMetadata b s)) = scope s \<and>
   languageLCID (snd (LoadEntityMetadata b s)) = languageLCID s"
  by (simp add: LoadEntityMetadata_def Let_def issue_def
           split: sum.splits option.splits list.splits)

text \<open>The first statement of \<^verbatim>\<open>Add\<close> and of the guarded part of \<^verbatim>\<open>Remove\<close>.\<close>

lemma metadata_step_frame:
  assumes "(if entitySetName s = None then LoadEntityMetadata b s else (Inr (), s)) = (r, s1)"
  shows "addedTags s1 = addedTags s \<and> entityId s1 = entityId s \<and> scope s1 = scope s \<and>
         languageLCID s1 = languageLCID s"
proof (cases "entitySetName s = None")
  case True
  with assms have "s1 = snd (LoadEntityMetadata b s)" by simp
  then show ?thesis using LoadEntityMetadata_frame [of b s] by simp
next
  case False
  with assms show ?thesis by simp
qed

lemma SearchTranslationsByName_addedTags:
  "addedTags (snd (SearchTranslationsByName b s name)) = addedTags s"
  by (simp add: SearchTranslationsByName_def catch_wrap_def Let_def issue_def split: sum.splits)

text \<open>
  \<^verbatim>\<open>GetAllByRecordId\<close> stores the list it resolves to, and leaves the attached set alone when
  it rejects.
\<close>

lemma GetAllByRecordId_addedTags:
  "(fst (GetAllByRecordId b s) = Inr ts \<longrightarrow>
      addedTags (snd (GetAllByRecordId b s)) = Some ts) \<and>
   (fst (GetAllByRecordId b s) = Inl err \<longrightarrow>
      addedTags (snd (GetAllByRecordId b s)) = addedTags s)"
proof -
  obtain r s1 where m:
    "(if falsy (intersectEntityName s) then LoadEntityMetadata b s else (Inr (), s)) = (r, s1)"
    by (cases "if falsy (intersectEntityName s) then LoadEntityMetadata b s else (Inr (), s)")
  have fr: "addedTags s1 = addedTags s"
  proof (cases "falsy (intersectEntityName s)")
    case True
    with m have "s1 = snd (LoadEntityMetadata b s)" by simp
    then show ?thesis using LoadEntityMetadata_frame [of b s] by simp
  next
    case False
    with m show ?thesis by simp
  qed
  show ?thesis
    unfolding GetAllByRecordId_def m
    by (cases r) (auto simp: fr catch_wrap_def Let_def issue_def split: sum.splits)
qed

text \<open>
  The search after the attached set is there: nothing in it assigns \<^verbatim>\<open>_addedTags\<close>.
\<close>

lemma SearchByName_loaded:
  "addedTags s = Some ts \<Longrightarrow> addedTags (snd (SearchByName b s name)) = Some ts"
  using SearchTranslationsByName_addedTags [of b "issue (Retrieve_tags name (scope s)) s" name]
  by (auto simp: SearchByName_def catch_wrap_def Let_def issue_def
           split: sum.splits prod.splits option.splits)

lemma SearchByName_load_rejected:
  assumes "addedTags s = None" and "fst (GetAllByRecordId b s) = Inl err"
  shows "fst (SearchByName b s name) = Inl (TagManagerServiceError ''ErrSearchTagsKey'' err) \<and>
         addedTags (snd (SearchByName b s name)) = None"
proof -
  obtain s1 where g: "GetAllByRecordId b s = (Inl err, s1)"
    using assms(2) by (cases "GetAllByRecordId b s") auto
  from GetAllByRecordId_addedTags [of b s _ err] g assms(1) have "addedTags s1 = None"
    by simp
  then show ?thesis
    by (simp add: SearchByName_def assms(1) g catch_wrap_def)
qed

lemma SearchByName_load_resolved:
  assumes "addedTags s = None" and "fst (GetAllByRecordId b s) = Inr loaded"
  shows "addedTags (snd (SearchByName b s name)) = Some loaded"
proof -
  obtain s1 where g: "GetAllByRecordId b s = (Inr loaded, s1)"
    using assms(2) by (cases "GetAllByRecordId b s") auto
  let ?s2 = "s1\<lparr>addedTags := Some loaded\<rparr>"
  have tr: "addedTags (snd (SearchTranslationsByName b (issue (Retrieve_tags name (scope ?s2)) ?s2)
                              name)) = Some loaded"
    by (simp add: SearchTranslationsByName_addedTags issue_def)
  show ?thesis
    using tr
    by (auto simp: SearchByName_def assms(1) g catch_wrap_def Let_def issue_def
             split: sum.splits prod.splits option.splits)
qed

section \<open>SearchByName\<close>

text \<open>
  Claim C7, as the code has it. For every input string and every backend: when the
  attached set has been loaded (\<^verbatim>\<open>_addedTags\<close> is not null), \<^verbatim>\<open>SearchByName\<close> leaves it as it
  was, whether the search resolves or rejects. When it has not been loaded, \<^verbatim>\<open>SearchByName\<close>
  first calls \<^verbatim>\<open>GetAllByRecordId\<close>: when that load resolves, the list it resolves to is the
  attached set after the search, whether the rest of the search resolves or rejects; when
  that load rejects, \<^verbatim>\<open>SearchByName\<close> rejects with a \<^verbatim>\<open>TagManagerServiceError\<close> that wraps the
  rejection, and the attached set stays not loaded.
\<close>

theorem SearchByName_addedTags:
  "(addedTags s = Some ts \<longrightarrow> addedTags (snd (SearchByName b s name)) = Some ts) \<and>
   (addedTags s = None \<and> fst (GetAllByRecordId b s) = Inr loaded \<longrightarrow>
      addedTags (snd (SearchByName b s name)) = Some loaded) \<and>
   (addedTags s = None \<and> fst (GetAllByRecordId b s) = Inl err \<longrightarrow>
      fst (SearchByName b s name) = Inl (TagManagerServiceError ''ErrSearchTagsKey'' err) \<and>
      addedTags (snd (SearchByName b s name)) = None)"
  using SearchByName_loaded [of s ts b name] SearchByName_load_resolved [of s b loaded name]
        SearchByName_load_rejected [of s b err name]
  by blast

text \<open>
  Claim C7 at three inputs: the service with \<^verbatim>\<open>Sales\<close> attached searches for \<^verbatim>\<open>sa\<close> and the
  attached set is the same afterwards; the service as constructed searches for \<^verbatim>\<open>sa\<close> and
  the attached set is the list the backend returns; the service as constructed searches
  for \<^verbatim>\<open>sa\<close> while the backend rejects the fetch of the attached tags, the search rejects and
  the attached set is still not loaded.
\<close>

theorem SearchByName_addedTags_witness:
  "addedTags (snd (SearchByName example_backend
                     (example_service\<lparr>addedTags := Some [example_attached]\<rparr>) ''sa'')) =
     Some [example_attached] \<and>
   addedTags (snd (SearchByName example_backend example_service ''sa'')) =
     Some [example_attached] \<and>
   fst (SearchByName example_backend_no_fetch example_service ''sa'') =
     Inl (TagManagerServiceError ''ErrSearchTagsKey''
            (TagManagerServiceError ''ErrGetAllTagsByRecordKey''
               (TransportError ''Network Error''))) \<and>
   addedTags (snd (SearchByName example_backend_no_fetch example_service ''sa'')) = None"
proof -
  have unloaded: "addedTags example_service = None"
    by (simp add: example_defs service_defs)
  have resolved: "fst (GetAllByRecordId example_backend example_service) =
                    Inr [example_attached]"
    by (simp add: example_defs service_defs tag_defs toLowerCase_examples)
  have rejected: "fst (GetAllByRecordId example_backend_no_fetch example_service) =
                    Inl (TagManagerServiceError ''ErrGetAllTagsByRecordKey''
                           (TransportError ''Network Error''))"
    by (simp add: example_defs service_defs)
  from SearchByName_addedTags
         [where s = "example_service\<lparr>addedTags := Some [example_attached]\<rparr>"
            and ts = "[example_attached]" and b = example_backend and name = "''sa''"]
       SearchByName_addedTags
         [where s = example_service and b = example_backend and loaded = "[example_attached]"
            and name = "''sa''"]
       SearchByName_addedTags
         [where s = example_service and b = example_backend_no_fetch and name = "''sa''"
            and err = "TagManagerServiceError ''ErrGetAllTagsByRecordKey''
                         (TransportError ''Network Error'')"]
       unloaded resolved rejected
  show ?thesis by simp
qed

text \<open>
  Claim C7 as stated fails on a service whose attached set has not been loaded: the
  search loads it from the backend and stores it.
\<close>

theorem SearchByName_loads_addedTags:
  "addedTags example_service = None \<and>
   addedTags (snd (SearchByName example_backend example_service ''sa'')) =
     Some [\<lparr>Tag_id = Str ''A'', Tag_value = ''Sales'', Tag_name = ''Sales'',
            Tag_scope = Some ''skills'', Tag_lcid = ''en-us'', Tag_recordId = Some ''R1'',
            Tag_preference = 1, Tag_persisted = True, Tag_originallcid = None\<rparr>]"
  by (simp add: example_defs service_defs tag_defs toLowerCase_examples)

section \<open>Remove\<close>

text \<open>The guard of \<^verbatim>\<open>Remove\<close> fails: the \<^verbatim>\<open>else\<close> branch.\<close>

lemma Remove_guard_fails:
  "entityId s = None \<or> tagId = Undefined \<or> tagId = Null \<Longrightarrow>
   Remove b s tagId = (Inr False, s)"
  by (auto simp: Remove_def catch_wrap_def split: option.splits js_id.splits)

text \<open>The guard holds and the metadata step succeeds.\<close>

lemma Remove_guarded:
  assumes eid: "entityId s = Some eid"
    and md: "(if entitySetName s = None then LoadEntityMetadata b s else (Inr (), s)) =
               (Inr (), s1)"
  shows "calls (snd (Remove b s (Str tid))) =
           calls s1 @ [DELETE_ref (webApiBasePath s1) (entitySetName s1) (Some eid)
                         (manyToManyRelationshipName s1) tid] \<and>
         (\<forall>ok. fst (Remove b s (Str tid)) = Inr ok \<longrightarrow>
            ok = (res_status b (DELETE_ref (webApiBasePath s1) (entitySetName s1) (Some eid)
                                  (manyToManyRelationshipName s1) tid) = Inr 204) \<and>
            (\<exists>ts. addedTags s = Some ts \<and>
                  addedTags (snd (Remove b s (Str tid))) =
                    Some (filter (\<lambda>i. Tag_id i \<noteq> Str tid) ts)) \<and>
            (\<forall>ts'. addedTags (snd (Remove b s (Str tid))) = Some ts' \<longrightarrow>
                  (\<forall>t\<in>set ts'. Tag_id t \<noteq> Str tid)))"
proof -
  from metadata_step_frame [OF md] eid
  have fr: "addedTags s1 = addedTags s" "entityId s1 = Some eid" by simp_all
  show ?thesis
    unfolding Remove_def md
    by (auto simp: eid fr catch_wrap_def Let_def issue_def split: sum.splits option.splits)
qed

text \<open>
  Claim C8, as the code has it. When the service does not have the identifier of its record
  (\<^verbatim>\<open>_entityId\<close> is null or undefined), or the identifier given to \<^verbatim>\<open>Remove\<close> is null or
  undefined, \<^verbatim>\<open>Remove\<close> resolves to false, sends no request and leaves the service, with its
  attached set, as it is. When the service has the identifier of its record, the
  identifier given is a string and the entity metadata is there (loaded before, or loaded
  by this call without error), \<^verbatim>\<open>Remove\<close> sends the request that removes the link, whether
  or not the identifier is in the attached set and whatever the outcome. When that call
  then resolves, the boolean it resolves to says whether the status of that request was
  204, and the attached set is the one before the call without the entries of that
  identifier.
\<close>

theorem Remove_sends_delete_and_filters:
  "(entityId s = None \<or> tagId = Undefined \<or> tagId = Null \<longrightarrow>
      Remove b s tagId = (Inr False, s)) \<and>
   (entityId s = Some eid \<and> tagId = Str tid \<and>
    (if entitySetName s = None then LoadEntityMetadata b s else (Inr (), s)) = (Inr (), s1) \<longrightarrow>
      calls (snd (Remove b s tagId)) =
        calls s1 @ [DELETE_ref (webApiBasePath s1) (entitySetName s1) (Some eid)
                      (manyToManyRelationshipName s1) tid] \<and>
      (\<forall>ok. fst (Remove b s tagId) = Inr ok \<longrightarrow>
         ok = (res_status b (DELETE_ref (webApiBasePath s1) (entitySetName s1) (Some eid)
                               (manyToManyRelationshipName s1) tid) = Inr 204) \<and>
         (\<exists>ts. addedTags s = Some ts \<and>
               addedTags (snd (Remove b s tagId)) =
                 Some (filter (\<lambda>i. Tag_id i \<noteq> Str tid) ts)) \<and>
         (\<forall>ts'. addedTags (snd (Remove b s tagId)) = Some ts' \<longrightarrow>
               (\<forall>t\<in>set ts'. Tag_id t \<noteq> Str tid))))"
  using Remove_guard_fails [of s tagId b] Remove_guarded [of s eid b s1 tid]
  by blast

text \<open>
  Claim C8 at three inputs. \<^verbatim>\<open>Sales\<close> (id \<^verbatim>\<open>A\<close>) is attached and the identifier \<^verbatim>\<open>Z\<close>, which is
  not in the attached set, is removed: the request is sent after the metadata request, the
  call resolves to true and the attached set is as before. The identifier \<^verbatim>\<open>null\<close> is
  removed, and the identifier \<^verbatim>\<open>A\<close> is removed on a service without the identifier of its
  record: the call resolves to false and the service is as before.
\<close>

theorem Remove_sends_delete_and_filters_witness:
  "calls (snd (Remove example_backend (example_service\<lparr>addedTags := Some [example_attached]\<rparr>)
                 (Str ''Z''))) =
     [GET_EntitySetName ''/api/data/v9.1'' ''account'',
      DELETE_ref ''/api/data/v9.1'' (Some ''accounts'') (Some ''R1'')
        (Some ''eax_account_eax_tag'') ''Z''] \<and>
   fst (Remove example_backend (example_service\<lparr>addedTags := Some [example_attached]\<rparr>)
          (Str ''Z'')) = Inr True \<and>
   addedTags (snd (Remove example_backend
                     (example_service\<lparr>addedTags := Some [example_attached]\<rparr>) (Str ''Z''))) =
     Some [example_attached] \<and>
   Remove example_backend (example_service\<lparr>addedTags := Some [example_attached]\<rparr>) Null =
     (Inr False, example_service\<lparr>addedTags := Some [example_attached]\<rparr>) \<and>
   Remove example_backend
     (example_service\<lparr>entityId := None, addedTags := Some [example_attached]\<rparr>) (Str ''A'') =
     (Inr False, example_service\<lparr>entityId := None, addedTags := Some [example_attached]\<rparr>)"
proof -
  let ?s = "example_service\<lparr>addedTags := Some [example_attached]\<rparr>"
  let ?s1 = "?s\<lparr>entitySetName := Some ''accounts'',
                 calls := [GET_EntitySetName ''/api/data/v9.1'' ''account'']\<rparr>"
  let ?nr = "example_service\<lparr>entityId := None, addedTags := Some [example_attached]\<rparr>"
  have eid: "entityId ?s = Some ''R1''"
    by (simp add: example_defs service_defs)
  have noid: "entityId ?nr = None"
    by simp
  have md: "(if entitySetName ?s = None then LoadEntityMetadata example_backend ?s
             else (Inr (), ?s)) = (Inr (), ?s1)"
    by (simp add: example_defs service_defs)
  have ids: "Tag_id example_attached = Str ''A''"
    by (simp add: example_defs tag_defs)
  have res: "fst (Remove example_backend ?s (Str ''Z'')) = Inr True"
    by (simp add: example_defs service_defs)
  have att: "addedTags ?s = Some [example_attached]"
    by simp
  have c1: "calls ?s1 = [GET_EntitySetName ''/api/data/v9.1'' ''account'']"
       "webApiBasePath ?s1 = ''/api/data/v9.1''" "entitySetName ?s1 = Some ''accounts''"
       "manyToManyRelationshipName ?s1 = Some ''eax_account_eax_tag''"
    by (simp_all add: example_service_def TagManagerService_new_def)
  from Remove_sends_delete_and_filters
         [where s = ?s and tagId = "Str ''Z''" and b = example_backend and eid = "''R1''"
            and tid = "''Z''" and ?s1.0 = ?s1] eid md
  have guarded:
    "calls (snd (Remove example_backend ?s (Str ''Z''))) =
       calls ?s1 @ [DELETE_ref (webApiBasePath ?s1) (entitySetName ?s1) (Some ''R1'')
                      (manyToManyRelationshipName ?s1) ''Z'']"
    "\<exists>ts. addedTags ?s = Some ts \<and>
          addedTags (snd (Remove example_backend ?s (Str ''Z''))) =
            Some (filter (\<lambda>i. Tag_id i \<noteq> Str ''Z'') ts)"
    using res by blast+
  from Remove_sends_delete_and_filters [where s = ?s and tagId = Null and b = example_backend]
  have null_id: "Remove example_backend ?s Null = (Inr False, ?s)"
    by blast
  from Remove_sends_delete_and_filters
         [where s = ?nr and tagId = "Str ''A''" and b = example_backend] noid
  have no_record: "Remove example_backend ?nr (Str ''A'') = (Inr False, ?nr)"
    by blast
  from guarded(2) att ids
  have kept: "addedTags (snd (Remove example_backend ?s (Str ''Z''))) = Some [example_attached]"
    by simp
  from guarded(1) c1
  have sent: "calls (snd (Remove example_backend ?s (Str ''Z''))) =
                [GET_EntitySetName ''/api/data/v9.1'' ''account'',
                 DELETE_ref ''/api/data/v9.1'' (Some ''accounts'') (Some ''R1'')
                   (Some ''eax_account_eax_tag'') ''Z'']"
    by simp
  from sent res kept null_id no_record show ?thesis
    by blast
qed

text \<open>
  Claim C8 as stated fails on a service without the identifier of its record (a record
  that has not been saved): \<^verbatim>\<open>Remove\<close> resolves to false without sending any request, and
  the attached set still holds the identifier.
\<close>

theorem Remove_without_entityId:
  "Remove example_backend
     (example_service\<lparr>entityId := None, addedTags := Some [example_attached]\<rparr>) (Str ''A'') =
     (Inr False, example_service\<lparr>entityId := None, addedTags := Some [example_attached]\<rparr>) \<and>
   calls (example_service\<lparr>entityId := None, addedTags := Some [example_attached]\<rparr>) = [] \<and>
   Tag_id example_attached = Str ''A''"
  by (simp add: Remove_def catch_wrap_def example_defs TagManagerService_new_def tag_defs)

text \<open>
  Claim C10. When the request that removes the link is rejected, \<^verbatim>\<open>Remove\<close> rejects with a
  \<^verbatim>\<open>TagManagerServiceError\<close> that wraps the rejection, and the attached set is as it was
  before the call. The request is sent when the service has the identifier of its record
  and the entity metadata is there.
\<close>

theorem Remove_delete_rejected:
  assumes eid: "entityId s = Some eid"
    and md: "(if entitySetName s = None then LoadEntityMetadata b s else (Inr (), s)) =
               (Inr (), s1)"
    and rej: "res_status b (DELETE_ref (webApiBasePath s1) (entitySetName s1) (Some eid)
                              (manyToManyRelationshipName s1) tid) = Inl err"
  shows "fst (Remove b s (Str tid)) = Inl (TagManagerServiceError ''ErrTagRemovalKey'' err) \<and>
         addedTags (snd (Remove b s (Str tid))) = addedTags s"
proof -
  from metadata_step_frame [OF md] eid
  have fr: "addedTags s1 = addedTags s" "entityId s1 = Some eid" by simp_all
  show ?thesis
    unfolding Remove_def md
    by (simp add: eid fr rej catch_wrap_def Let_def issue_def)
qed

text \<open>
  Claim C10 at an input: \<^verbatim>\<open>Sales\<close> (id \<^verbatim>\<open>A\<close>) is attached and the backend rejects the request
  with a network error.
\<close>

theorem Remove_delete_rejected_witness:
  "fst (Remove example_backend_offline (example_service\<lparr>addedTags := Some [example_attached]\<rparr>)
          (Str ''A'')) =
     Inl (TagManagerServiceError ''ErrTagRemovalKey'' (TransportError ''Network Error'')) \<and>
   addedTags (snd (Remove example_backend_offline
                     (example_service\<lparr>addedTags := Some [example_attached]\<rparr>) (Str ''A''))) =
     Some [example_attached]"
proof -
  let ?s = "example_service\<lparr>addedTags := Some [example_attached]\<rparr>"
  let ?s1 = "?s\<lparr>entitySetName := Some ''accounts'',
                 calls := [GET_EntitySetName ''/api/data/v9.1'' ''account'']\<rparr>"
  have eid: "entityId ?s = Some ''R1''"
    by (simp add: example_defs service_defs)
  have md: "(if entitySetName ?s = None then LoadEntityMetadata example_backend_offline ?s
             else (Inr (), ?s)) = (Inr (), ?s1)"
    by (simp add: example_defs service_defs)
  have rej: "res_status example_backend_offline r = Inl (TransportError ''Network Error'')" for r
    by (simp add: example_defs)
  from Remove_delete_rejected [OF eid md rej, of "''A''"] show ?thesis
    by simp
qed

section \<open>Add\<close>

text \<open>
  What \<^verbatim>\<open>Add\<close> does on the path where its lookup finds nothing. \<^verbatim>\<open>Add\<close> is called with a name
  and no tag id, the entity metadata is there, and the lookup, which queries
  \<^verbatim>\<open>window.name\<close>, returns no row. When the backend creates the tag record and then has no
  language record for the viewer's locale, \<^verbatim>\<open>Add\<close> rejects with a \<^verbatim>\<open>TagManagerServiceError\<close>
  that wraps the error of the missing language, the attached set is as it was before the
  call, and the requests sent are the lookup, the creation and the language query, in this
  order.
\<close>

lemma Add_language_not_found:
  assumes md: "(if entitySetName s = None then LoadEntityMetadata b s else (Inr (), s)) =
                 (Inr (), s1)"
    and absent: "tagId = Undefined \<or> tagId = Null"
    and lookup: "res_tags b (Retrieve_tag_by_name (toLowerCase (window_name b))) = Inr []"
    and created: "res_created_id b (CreateRecord_tag tagName (scope s)) = Inr (Some newId)"
    and nonempty: "newId \<noteq> []"
    and lang: "res_languages b (Retrieve_language (languageLCID s)) = Inr []"
  shows "fst (Add b s tagName tagId) =
           Inl (TagManagerServiceError ''ErrTagCreationRelationshipKey''
                  (CustomError ''ErrTagCreatedLCIDNotFoundKey'')) \<and>
         addedTags (snd (Add b s tagName tagId)) = addedTags s \<and>
         calls (snd (Add b s tagName tagId)) =
           calls s1 @ [Retrieve_tag_by_name (toLowerCase (window_name b)),
                       CreateRecord_tag tagName (scope s),
                       Retrieve_language (languageLCID s)]"
proof -
  from metadata_step_frame [OF md]
  have fr: "addedTags s1 = addedTags s" "scope s1 = scope s" "languageLCID s1 = languageLCID s"
    by simp_all
  from absent have guard: "\<not> (tagId \<noteq> Undefined \<and> tagId \<noteq> Null)"
    by simp
  show ?thesis
    unfolding Add_def md
    by (simp add: guard fr lookup created nonempty lang catch_wrap_def Let_def issue_def
          GetByName_def Create_def GetLanguageByLCID_def)
qed

text \<open>
  Claim C6, the code at an input. \<^verbatim>\<open>window.name\<close> is \<^verbatim>\<open>Sales\<close>; the backend holds the tag
  \<^verbatim>\<open>Sales\<close> (id \<^verbatim>\<open>A\<close>), no tag \<^verbatim>\<open>Marketing\<close> and no language record. \<^verbatim>\<open>Add\<close> of the name
  \<^verbatim>\<open>Marketing\<close> without tag id looks up \<^verbatim>\<open>sales\<close>, finds the tag \<^verbatim>\<open>Sales\<close>, sends neither the
  creation of a record nor the language query, links \<^verbatim>\<open>Sales\<close> to the record, resolves to
  it and appends it to the attached set.
\<close>

theorem Add_attaches_window_name_tag:
  "res_tags example_backend_named (Retrieve_tag_by_name (toLowerCase ''Marketing'')) = Inr [] \<and>
   res_languages example_backend_named (Retrieve_language ''en-us'') = Inr [] \<and>
   calls (snd (Add example_backend_named (example_service\<lparr>addedTags := Some []\<rparr>)
                 ''Marketing'' Undefined)) =
     [GET_EntitySetName ''/api/data/v9.1'' ''account'',
      Retrieve_tag_by_name ''sales'',
      POST_ref ''/api/data/v9.1'' ''https://org.crm'' (Some ''accounts'') (Some ''R1'')
        (Some ''eax_account_eax_tag'') ''eax_tags'' ''A''] \<and>
   fst (Add example_backend_named (example_service\<lparr>addedTags := Some []\<rparr>)
          ''Marketing'' Undefined) =
     Inr (Some \<lparr>Tag_id = Str ''A'', Tag_value = ''Sales'', Tag_name = ''Sales'',
                 Tag_scope = Some ''skills'', Tag_lcid = ''en-us'', Tag_recordId = None,
                 Tag_preference = 1, Tag_persisted = True, Tag_originallcid = None\<rparr>) \<and>
   addedTags (snd (Add example_backend_named (example_service\<lparr>addedTags := Some []\<rparr>)
                     ''Marketing'' Undefined)) =
     Some [\<lparr>Tag_id = Str ''A'', Tag_value = ''Sales'', Tag_name = ''Sales'',
            Tag_scope = Some ''skills'', Tag_lcid = ''en-us'', Tag_recordId = None,
            Tag_preference = 1, Tag_persisted = True, Tag_originallcid = None\<rparr>]"
  by (simp add: example_defs service_defs tag_defs toLowerCase_examples)

text \<open>
  Claim C5, the code at an input. The backend holds the tag \<^verbatim>\<open>Sales\<close> of scope \<^verbatim>\<open>skills\<close> and
  locale \<^verbatim>\<open>en-us\<close>, the scope and the locale of the service, and \<^verbatim>\<open>window.name\<close> is empty.
  \<^verbatim>\<open>Add\<close> of the name \<^verbatim>\<open>Sales\<close> without tag id looks up the empty name, a query that carries
  neither the scope nor the locale, finds nothing, creates a second record \<^verbatim>\<open>Sales\<close> and
  attaches that one.
\<close>

theorem Add_looks_up_window_name:
  "res_tags example_backend_with_language (Retrieve_tag_by_name (toLowerCase ''Sales'')) =
     Inr [\<lparr>eax_name = ''Sales'', eax_languagelcid = ''en-US'', eax_scope = Some ''skills'',
           eax_tagid = Str ''A''\<rparr>] \<and>
   calls (snd (Add example_backend_with_language (example_service\<lparr>addedTags := Some []\<rparr>)
                 ''Sales'' Undefined)) =
     [GET_EntitySetName ''/api/data/v9.1'' ''account'',
      Retrieve_tag_by_name [],
      CreateRecord_tag ''Sales'' ''skills'',
      Retrieve_language ''en-us'',
      POST_ref ''/api/data/v9.1'' ''https://org.crm'' (Some ''eax_tags'') (Some ''B'')
        (Some ''eax_Language'') ''eax_languages'' ''L1'',
      POST_ref ''/api/data/v9.1'' ''https://org.crm'' (Some ''accounts'') (Some ''R1'')
        (Some ''eax_account_eax_tag'') ''eax_tags'' ''B''] \<and>
   map Tag_id (case addedTags (snd (Add example_backend_with_language
                                     (example_service\<lparr>addedTags := Some []\<rparr>) ''Sales''
                                     Undefined)) of
                 None \<Rightarrow> [] | Some ts \<Rightarrow> ts) = [Str ''B'']"
  by (simp add: example_defs service_defs tag_defs toLowerCase_examples)

end
